theory Spec2Isabelle
  imports Main "HOL-Library.AList"
begin

section \<open>KVR: an in-memory key-value store behind four Express routes\<close>

text \<open>
  The program is \<^verbatim>\<open>src/server.js\<close>. It keeps one plain JavaScript object,
  \<^verbatim>\<open>const store = {}\<close>, and reads and writes it with the operators \<^verbatim>\<open>in\<close>,
  \<^verbatim>\<open>store[key]\<close>, \<^verbatim>\<open>store[key] = ...\<close>, \<^verbatim>\<open>delete store[key]\<close> and
  \<^verbatim>\<open>Object.keys(store)\<close>. The object literal \<^verbatim>\<open>{}\<close> has \<^verbatim>\<open>Object.prototype\<close> as its
  prototype, so the first three operators also see the properties that every object inherits.
  The model below keeps that: the own properties of \<^verbatim>\<open>store\<close> are an association list, and
  the inherited ones are looked up in a fixed table.
\<close>

subsection \<open>JavaScript values\<close>

text \<open>
  Only the values that can reach the handlers are modelled: \<^verbatim>\<open>undefined\<close>, strings (the
  request body as \<^verbatim>\<open>bodyParser.text\<close> delivers it, a route parameter, an environment
  variable), numbers (the literal \<^verbatim>\<open>3000\<close>), the built-in function objects that
  \<^verbatim>\<open>Object.prototype\<close> holds (named by the property they are stored under), and the object
  \<^verbatim>\<open>Object.prototype\<close> itself.
\<close>

datatype jsval =
    JUndefined
  | JString string
  | JNumber int
  | JBuiltin string
  | JObjectPrototype

text \<open>JavaScript's \<^verbatim>\<open>ToBoolean\<close>, and the operator \<^verbatim>\<open>a || b\<close> built on it.\<close>

fun truthy :: "jsval \<Rightarrow> bool" where
  "truthy JUndefined = False"
| "truthy (JString s) = (s \<noteq> [])"
| "truthy (JNumber n) = (n \<noteq> 0)"
| "truthy (JBuiltin f) = True"
| "truthy JObjectPrototype = True"

definition js_or :: "jsval \<Rightarrow> jsval \<Rightarrow> jsval" where
  "js_or a b = (if truthy a then a else b)"

subsection \<open>The object \<^verbatim>\<open>store\<close>\<close>

text \<open>
  The own properties of \<^verbatim>\<open>store\<close>, in insertion order. Each is a writable, enumerable,
  configurable data property, since the program creates them by assignment only.
\<close>

type_synonym store = "(string \<times> jsval) list"

text \<open>
  The property names of \<^verbatim>\<open>Object.prototype\<close>. All are data properties holding built-in
  functions, except \<^verbatim>\<open>__proto__\<close>, which is an accessor: its getter returns the prototype of
  the receiver and its setter ignores every value that is neither an object nor \<^verbatim>\<open>null\<close>.
\<close>

definition object_prototype_names :: "string list" where
  "object_prototype_names =
     [''constructor'', ''__defineGetter__'', ''__defineSetter__'', ''hasOwnProperty'',
      ''__lookupGetter__'', ''__lookupSetter__'', ''isPrototypeOf'', ''propertyIsEnumerable'',
      ''toString'', ''valueOf'', ''__proto__'', ''toLocaleString'']"

text \<open>\<^verbatim>\<open>key in store\<close>: an own property, or one found on the prototype.\<close>

definition has_property :: "store \<Rightarrow> string \<Rightarrow> bool" where
  "has_property s key =
     (case map_of s key of
        Some v \<Rightarrow> True
      | None \<Rightarrow> key \<in> set object_prototype_names)"

text \<open>\<^verbatim>\<open>store[key]\<close>: the own property first, then the prototype, else \<^verbatim>\<open>undefined\<close>.\<close>

definition get_property :: "store \<Rightarrow> string \<Rightarrow> jsval" where
  "get_property s key =
     (case map_of s key of
        Some v \<Rightarrow> v
      | None \<Rightarrow>
          if key = ''__proto__'' then JObjectPrototype
          else if key \<in> set object_prototype_names then JBuiltin key
          else JUndefined)"

text \<open>
  \<^verbatim>\<open>store[key] = body\<close> for a string \<^verbatim>\<open>body\<close>. An own property is overwritten. Otherwise
  the prototype is consulted: the accessor \<^verbatim>\<open>__proto__\<close> is called with the string and
  does nothing; a writable data property, or no property at all, makes the assignment create
  an own property on \<^verbatim>\<open>store\<close>.
\<close>

definition set_property :: "store \<Rightarrow> string \<Rightarrow> string \<Rightarrow> store" where
  "set_property s key body =
     (case map_of s key of
        Some v \<Rightarrow> AList.update key (JString body) s
      | None \<Rightarrow>
          if key = ''__proto__'' then s
          else AList.update key (JString body) s)"

text \<open>\<^verbatim>\<open>delete store[key]\<close>: removes the own property if there is one.\<close>

definition delete_property :: "store \<Rightarrow> string \<Rightarrow> store" where
  "delete_property s key = AList.delete key s"

text \<open>
  \<^verbatim>\<open>Object.keys(store)\<close>: the names of the own enumerable properties. JavaScript lists
  integer-like names first and the others in order of creation; the list here is in order of
  creation throughout, and nothing below depends on the order.
\<close>

definition object_keys :: "store \<Rightarrow> string list" where
  "object_keys s = map fst s"

subsection \<open>Responses\<close>

text \<open>
  A handler ends in \<^verbatim>\<open>res.send(x)\<close> or \<^verbatim>\<open>res.json({name: text})\<close>, after an optional
  \<^verbatim>\<open>res.status(n)\<close>; without it the status is 200. The response records which of the two
  was called and with what.
\<close>

datatype payload =
    Send jsval
  | Json "(string \<times> string) list"

datatype response = Response nat payload

subsection \<open>The four handlers\<close>

text \<open>
  Each handler takes the route parameter \<^verbatim>\<open>req.params.key\<close> (and \<^verbatim>\<open>req.body\<close>, a string,
  for PUT) and the store, and returns the response with the store afterwards.
\<close>

definition app_get :: "string \<Rightarrow> store \<Rightarrow> response \<times> store" where
  "app_get key s =
     (if \<not> has_property s key
      then (Response 404 (Json [(''error'', ''Key not found'')]), s)
      else (Response 200 (Send (get_property s key)), s))"

definition app_put :: "string \<Rightarrow> string \<Rightarrow> store \<Rightarrow> response \<times> store" where
  "app_put key body s =
     (let s' = set_property s key body
      in (Response 200 (Send (JString body)), s'))"

definition app_delete :: "string \<Rightarrow> store \<Rightarrow> response \<times> store" where
  "app_delete key s =
     (let s' = delete_property s key
      in (Response 200 (Json [(''deleted'', key)]), s'))"

definition app_delete_all :: "store \<Rightarrow> response \<times> store" where
  "app_delete_all s =
     (let s' = fold (\<lambda>k acc. delete_property acc k) (object_keys s) s
      in (Response 200 (Json [(''deleted'', ''all'')]), s'))"

text \<open>The error response of the service.\<close>

definition not_found :: response where
  "not_found = Response 404 (Json [(''error'', ''Key not found'')])"

subsection \<open>The listening port\<close>

text \<open>
  \<^verbatim>\<open>process.env\<close> maps the names of the environment variables that are set to their
  values, which are strings; reading a name that is not set gives \<^verbatim>\<open>undefined\<close>.
  \<^verbatim>\<open>port\<close> is the value the program hands to \<^verbatim>\<open>app.listen\<close>.
\<close>

definition process_env :: "(string \<rightharpoonup> string) \<Rightarrow> string \<Rightarrow> jsval" where
  "process_env env name = (case env name of None \<Rightarrow> JUndefined | Some s \<Rightarrow> JString s)"

definition port :: "(string \<rightharpoonup> string) \<Rightarrow> jsval" where
  "port env = js_or (process_env env ''PORT'') (JNumber 3000)"

subsection \<open>The argument of \<^verbatim>\<open>app.listen\<close>\<close>

text \<open>
  \<^verbatim>\<open>app.listen(port, ...)\<close> hands its arguments to Node's \<^verbatim>\<open>server.listen\<close>, which reads a
  string argument with \<^verbatim>\<open>Number\<close>. \<open>integer_numeral\<close> is \<^verbatim>\<open>Number\<close> on the strings made of
  decimal digits with an optional sign in front; on every other string it is \<open>None\<close>, and
  what Node does with such a string is not defined here.
\<close>

definition digit_value :: "char \<Rightarrow> nat option" where
  "digit_value c =
     map_of [(CHR ''0'', 0), (CHR ''1'', 1), (CHR ''2'', 2), (CHR ''3'', 3), (CHR ''4'', 4),
             (CHR ''5'', 5), (CHR ''6'', 6), (CHR ''7'', 7), (CHR ''8'', 8), (CHR ''9'', 9)] c"

fun digits_value :: "nat \<Rightarrow> string \<Rightarrow> nat option" where
  "digits_value acc [] = Some acc"
| "digits_value acc (c # cs) =
     (case digit_value c of
        None \<Rightarrow> None
      | Some d \<Rightarrow> digits_value (10 * acc + d) cs)"

definition integer_numeral :: "string \<Rightarrow> int option" where
  "integer_numeral s =
     (case s of
        [] \<Rightarrow> None
      | c # cs \<Rightarrow>
          if c = CHR ''-'' then
            (if cs = [] then None else map_option (\<lambda>n. - int n) (digits_value 0 cs))
          else if c = CHR ''+'' then
            (if cs = [] then None else map_option int (digits_value 0 cs))
          else map_option int (digits_value 0 s))"

text \<open>
  What the listener is bound to. A number below zero read from a string makes the string a
  pipe name; otherwise the number is checked as a port: above 65535 the call throws, 0 lets
  the operating system choose a free port, and any other number is the TCP port asked for.
\<close>

datatype listening =
    TcpPort nat
  | AnyTcpPort
  | PipeName string
  | ListenThrows
  | NotRead

definition listen_port :: "int \<Rightarrow> listening" where
  "listen_port n =
     (if n < 0 \<or> 65535 < n then ListenThrows
      else if n = 0 then AnyTcpPort
      else TcpPort (nat n))"

definition app_listen :: "jsval \<Rightarrow> listening" where
  "app_listen p =
     (case p of
        JNumber n \<Rightarrow> listen_port n
      | JString s \<Rightarrow>
          (case integer_numeral s of
             None \<Rightarrow> NotRead
           | Some n \<Rightarrow> if n < 0 then PipeName s else listen_port n)
      | JUndefined \<Rightarrow> NotRead
      | JBuiltin f \<Rightarrow> NotRead
      | JObjectPrototype \<Rightarrow> NotRead)"

subsection \<open>The text parser in front of the handlers\<close>







section \<open>Properties\<close>

subsection \<open>Own properties after each operation\<close>

lemma map_of_set_property:
  "key \<noteq> ''__proto__'' \<or> map_of s key \<noteq> None \<Longrightarrow>
     map_of (set_property s key body) = (map_of s)(key \<mapsto> JString body)"
  by (auto simp: set_property_def update_conv' split: option.splits)

lemma map_of_set_property_other:
  "key' \<noteq> key \<Longrightarrow> map_of (set_property s key body) key' = map_of s key'"
  by (auto simp: set_property_def update_conv' split: option.splits)

lemma map_of_delete_property:
  "map_of (delete_property s key) = (map_of s)(key := None)"
  by (simp add: delete_property_def delete_conv')

lemma fold_delete_property:
  "fold (\<lambda>k acc. delete_property acc k) ks s = filter (\<lambda>p. fst p \<notin> set ks) s"
proof (induction ks arbitrary: s)
  case Nil
  show ?case by simp
next
  case (Cons k ks)
  have "delete_property s k = filter (\<lambda>p. fst p \<noteq> k) s"
    by (auto simp: delete_property_def AList.delete_eq intro: filter_cong)
  then show ?case
    using Cons.IH [of "delete_property s k"] by (simp add: conj_commute)
qed

lemma delete_all_store: "snd (app_delete_all s) = []"
  by (simp add: app_delete_all_def object_keys_def fold_delete_property)

lemma get_absent_ordinary_key:
  "map_of s key = None \<Longrightarrow> key \<notin> set object_prototype_names \<Longrightarrow>
     fst (app_get key s) = not_found"
  by (simp add: app_get_def has_property_def not_found_def)

lemma get_present_key:
  "map_of s key = Some v \<Longrightarrow> fst (app_get key s) = Response 200 (Send v)"
  by (simp add: app_get_def has_property_def get_property_def)

lemma not_found_only_if_absent:
  "fst (app_get key s) = not_found \<Longrightarrow> map_of s key = None"
  by (auto simp: app_get_def has_property_def not_found_def split: if_splits option.splits)

lemma delete_all_response:
  "app_delete_all s = (Response 200 (Json [(''deleted'', ''all'')]), [])"
  by (simp add: app_delete_all_def object_keys_def fold_delete_property)

lemma delete_all_idempotent:
  "app_delete_all (snd (app_delete_all s)) = app_delete_all s"
  by (simp add: delete_all_response)

subsection \<open>Keys that \<^verbatim>\<open>Object.prototype\<close> does not name\<close>

text \<open>
  For a key outside \<open>object_prototype_names\<close> the object behaves as a dictionary: a value
  put is the value read, and a key deleted, or cleared by the wipe, is not found.
\<close>

lemma put_get_ordinary_key:
  "key \<noteq> ''__proto__'' \<Longrightarrow>
     fst (app_get key (snd (app_put key body s))) = Response 200 (Send (JString body))"
  by (simp add: app_put_def get_present_key map_of_set_property)

lemma put_put_get_ordinary_key:
  "key \<noteq> ''__proto__'' \<Longrightarrow>
     fst (app_get key (snd (app_put key v2 (snd (app_put key v1 s)))))
       = Response 200 (Send (JString v2))"
  by (simp add: app_put_def get_present_key map_of_set_property)

lemma delete_get_ordinary_key:
  "key \<notin> set object_prototype_names \<Longrightarrow>
     fst (app_get key (snd (app_delete key s))) = not_found"
  by (simp add: app_delete_def get_absent_ordinary_key map_of_delete_property)

lemma delete_all_get_ordinary_key:
  "key \<notin> set object_prototype_names \<Longrightarrow>
     fst (app_get key (snd (app_delete_all s))) = not_found"
  by (simp add: delete_all_response get_absent_ordinary_key)

subsection \<open>The port value and the PUT handler\<close>

lemma port_of_env:
  "port env =
     (case env ''PORT'' of
        None \<Rightarrow> JNumber 3000
      | Some p \<Rightarrow> if p = [] then JNumber 3000 else JString p)"
  by (simp add: port_def process_env_def js_or_def split: option.splits)

lemma integer_numeral_nonempty: "integer_numeral p = Some n \<Longrightarrow> p \<noteq> []"
  by (auto simp: integer_numeral_def)


subsection \<open>The claims\<close>

text \<open>
  C1. Claimed: for every key \<open>k\<close> and value \<open>v\<close>, \<open>put(k, v)\<close> followed by \<open>get(k)\<close>
  returns exactly \<open>v\<close>, from any store. The code at the key \<^verbatim>\<open>__proto__\<close>: the assignment
  \<^verbatim>\<open>store['__proto__'] = 'x'\<close> reaches the inherited setter, which drops the string, and
  the GET that follows sends \<^verbatim>\<open>Object.prototype\<close> instead of \<^verbatim>\<open>'x'\<close>.
\<close>

theorem put_get_proto_key:
  "app_put ''__proto__'' ''x'' [] = (Response 200 (Send (JString ''x'')), []) \<and>
   app_get ''__proto__'' (snd (app_put ''__proto__'' ''x'' []))
     = (Response 200 (Send JObjectPrototype), [])"
  by (simp add: app_put_def app_get_def set_property_def has_property_def get_property_def
      object_prototype_names_def)

text \<open>
  C2. Claimed: \<open>get(k)\<close> answers 404 with the body \<^verbatim>\<open>{"error":"Key not found"}\<close> for every
  key never put, the empty store of a fresh process included. The code at the key
  \<^verbatim>\<open>toString\<close> on the empty store: \<^verbatim>\<open>'toString' in store\<close> is true through the prototype,
  so the handler skips the 404 and calls \<^verbatim>\<open>res.send\<close> with the inherited function.
\<close>

theorem get_inherited_key_empty_store:
  "app_get ''toString'' [] = (Response 200 (Send (JBuiltin ''toString'')), []) \<and>
   fst (app_get ''toString'' []) \<noteq> not_found"
  by (simp add: app_get_def has_property_def get_property_def object_prototype_names_def
      not_found_def)

text \<open>
  C3. Claimed: after \<open>delete(k)\<close>, \<open>get(k)\<close> answers 404, whether or not \<open>k\<close> was present.
  The code at the key \<^verbatim>\<open>toString\<close>, put and then deleted: the delete removes the own
  property, the inherited one remains, and the GET does not answer 404.
\<close>

theorem delete_get_inherited_key:
  "snd (app_delete ''toString'' (snd (app_put ''toString'' ''x'' []))) = [] \<and>
   fst (app_get ''toString'' (snd (app_delete ''toString'' (snd (app_put ''toString'' ''x'' [])))))
     = Response 200 (Send (JBuiltin ''toString''))"
  by (simp add: app_put_def app_delete_def app_get_def set_property_def delete_property_def
      has_property_def get_property_def object_prototype_names_def)

text \<open>
  C4. Claimed: \<open>put(k, v1); put(k, v2); get(k)\<close> returns \<open>v2\<close> for every key. The code at
  the key \<^verbatim>\<open>__proto__\<close>: neither put stores anything, and the GET sends
  \<^verbatim>\<open>Object.prototype\<close>.
\<close>

theorem put_put_get_proto_key:
  "fst (app_get ''__proto__'' (snd (app_put ''__proto__'' ''2'' (snd (app_put ''__proto__'' ''1'' [])))))
     = Response 200 (Send JObjectPrototype)"
  by (simp add: app_put_def app_get_def set_property_def has_property_def get_property_def
      object_prototype_names_def)

text \<open>
  C5. Claimed: \<open>delete_all()\<close> always answers \<^verbatim>\<open>{"deleted":"all"}\<close>, is idempotent, and after
  it \<open>get(k)\<close> answers 404 for every key that had been put. The code after
  \<^verbatim>\<open>put('toString', 'x')\<close> and the wipe: the acknowledgment is sent and the store has no own
  property left, yet the GET of \<^verbatim>\<open>toString\<close> does not answer 404.
\<close>

theorem delete_all_get_inherited_key:
  "app_delete_all (snd (app_put ''toString'' ''x'' []))
     = (Response 200 (Json [(''deleted'', ''all'')]), []) \<and>
   fst (app_get ''toString'' (snd (app_delete_all (snd (app_put ''toString'' ''x'' [])))))
     = Response 200 (Send (JBuiltin ''toString''))"
  by (simp add: app_put_def app_delete_all_def object_keys_def delete_property_def app_get_def
      set_property_def has_property_def get_property_def object_prototype_names_def)

text \<open>
  C6. For every key and every store, present or absent key alike, \<open>delete(k)\<close> answers with
  status 200 and the JSON acknowledgment \<^verbatim>\<open>{"deleted": k}\<close>.
\<close>

theorem delete_acknowledges_key:
  "fst (app_delete key s) = Response 200 (Json [(''deleted'', key)])"
  by (simp add: app_delete_def)

text \<open>
  C7. \<open>get(k)\<close> has no side effect: the store after the handler, on either branch, is the
  store before it.
\<close>

theorem get_leaves_store:
  "snd (app_get key s) = s"
  by (simp add: app_get_def)




text \<open>
  C9. \<open>put(k, v)\<close> and \<open>delete(k)\<close> are local to \<open>k\<close>: for a different key \<open>k'\<close> the own
  property of the store is the same before and after (present with the same value, or
  absent), and so is what a GET of \<open>k'\<close> answers.
\<close>

theorem put_delete_local:
  assumes "key' \<noteq> key"
  shows "map_of (snd (app_put key body s)) key' = map_of s key'
    \<and> map_of (snd (app_delete key s)) key' = map_of s key'
    \<and> fst (app_get key' (snd (app_put key body s))) = fst (app_get key' s)
    \<and> fst (app_get key' (snd (app_delete key s))) = fst (app_get key' s)"
proof -
  have p: "map_of (snd (app_put key body s)) key' = map_of s key'"
    using assms by (simp add: app_put_def map_of_set_property_other)
  have d: "map_of (snd (app_delete key s)) key' = map_of s key'"
    using assms by (simp add: app_delete_def map_of_delete_property)
  have g: "fst (app_get key' a) = fst (app_get key' b)" if "map_of a key' = map_of b key'" for a b
    using that by (simp add: app_get_def has_property_def get_property_def)
  show ?thesis
    using p d g [OF p] g [OF d] by simp
qed

theorem put_delete_local_witness:
  "''b'' \<noteq> ''a''
   \<and> map_of (snd (app_put ''a'' ''1'' [(''b'', JString ''2'')])) ''b'' = Some (JString ''2'')
   \<and> map_of (snd (app_delete ''a'' [(''a'', JString ''1''), (''b'', JString ''2'')])) ''b''
       = Some (JString ''2'')
   \<and> fst (app_get ''b'' (snd (app_put ''a'' ''1'' [(''b'', JString ''2'')])))
       = Response 200 (Send (JString ''2''))
   \<and> fst (app_get ''c'' (snd (app_delete ''a'' [(''a'', JString ''1'')]))) = not_found"
proof -
  have ba: "''b'' \<noteq> ''a''" by simp
  have ca: "''c'' \<noteq> ''a''" by simp
  show ?thesis
    using put_delete_local [OF ba, of "''1''" "[(''b'', JString ''2'')]"]
      put_delete_local [OF ba, of "''1''" "[(''a'', JString ''1''), (''b'', JString ''2'')]"]
      put_delete_local [OF ca, of "''1''" "[(''a'', JString ''1'')]"]
    by (simp add: app_get_def has_property_def get_property_def object_prototype_names_def
        not_found_def)
qed

text \<open>
  C10. Claimed: the service listens on the TCP port given by \<^verbatim>\<open>PORT\<close> when it is set,
  and on 3000 when it is absent. The code with \<^verbatim>\<open>PORT\<close> set to the integers 99999, 0 and
  -1: \<^verbatim>\<open>app.listen\<close> throws on the first, takes whichever port the operating system
  chooses on the second, and binds a pipe named \<^verbatim>\<open>-1\<close> on the third.
\<close>

theorem listen_integer_not_a_port:
  "app_listen (port [''PORT'' \<mapsto> ''99999'']) = ListenThrows
   \<and> app_listen (port [''PORT'' \<mapsto> ''0'']) = AnyTcpPort
   \<and> app_listen (port [''PORT'' \<mapsto> ''-1'']) = PipeName ''-1''"
  by (simp add: port_of_env app_listen_def integer_numeral_def digit_value_def listen_port_def)

text \<open>
  C10, amended. The service listens on TCP port \<open>n\<close> when \<^verbatim>\<open>PORT\<close> is set to an integer
  numeral of value \<open>n\<close> between 1 and 65535, and on TCP port 3000 when \<^verbatim>\<open>PORT\<close> is absent.
\<close>

theorem listen_port_selection:
  "(env ''PORT'' = Some p \<and> integer_numeral p = Some n \<and> 1 \<le> n \<and> n \<le> 65535
      \<longrightarrow> app_listen (port env) = TcpPort (nat n))
   \<and> (env ''PORT'' = None \<longrightarrow> app_listen (port env) = TcpPort 3000)"
proof -
  have "app_listen (port env) = TcpPort (nat n)"
    if "env ''PORT'' = Some p" "integer_numeral p = Some n" "1 \<le> n" "n \<le> 65535"
  proof -
    have "port env = JString p"
      using that integer_numeral_nonempty [of p n] by (simp add: port_of_env)
    then show ?thesis
      using that by (simp add: app_listen_def listen_port_def)
  qed
  moreover have "app_listen (port env) = TcpPort 3000" if "env ''PORT'' = None"
    using that by (simp add: port_of_env app_listen_def listen_port_def)
  ultimately show ?thesis by blast
qed

theorem listen_port_selection_witness:
  "integer_numeral ''8080'' = Some 8080
   \<and> app_listen (port [''PORT'' \<mapsto> ''8080'']) = TcpPort 8080
   \<and> app_listen (port Map.empty) = TcpPort 3000"
proof -
  have v: "integer_numeral ''8080'' = Some 8080"
    by (simp add: integer_numeral_def digit_value_def)
  show ?thesis
    using v listen_port_selection [of "[''PORT'' \<mapsto> ''8080'']" "''8080''" 8080]
      listen_port_selection [of Map.empty]
    by simp
qed

end
